theory Spec2Isabelle
  imports Main "HOL-Library.Word"
begin

section \<open>Data model\<close>

text \<open>
  The node-local control plane of ects: \<open>WatchPipelines\<close> and \<open>WatchKiller\<close> (package
  pipeline) and the HTTP handler \<open>PostKiller\<close> (controllers/pipeline/main.go).

  The store client (etcd clientv3), \<open>encoding/json\<close>, the logger and the scheduler queue
  are libraries outside the repository. Their effects are recorded in a \<open>World\<close>: the
  events pushed to \<open>scheduler.Instance\<close>, the lines written to the log, the calls made on
  \<open>discover.Client\<close> with their arguments, and the seconds slept. What the libraries
  answer (the response of a \<open>Get\<close>, the responses a watch channel delivers, the result
  of \<open>json.Unmarshal\<close>) is an argument of the model.
\<close>

type_synonym int64 = "64 word"

text \<open>
  Modelled from the spec: \<open>models.Pipeline\<close> is declared outside src/. The code reads
  the fields \<open>Id\<close> (printed with \<open>%s\<close>) and \<open>Nodes\<close> (ranged over and compared with the
  local node name); the spec's data model names an identifier and a list of node
  identifiers. \<open>Id\<close> is written \<open>Id'\<close> here.
\<close>

record Pipeline =
  Id' :: string
  Nodes :: "string list"

text \<open>The constants \<open>PUT = 1\<close>, \<open>DEL = 2\<close>, \<open>KILL = 3\<close> and the struct \<open>Event\<close>.\<close>

definition PUT :: int where "PUT = 1"
definition DEL :: int where "DEL = 2"
definition KILL :: int where "KILL = 3"

record Event =
  Type :: int
  Pipeline :: Pipeline

text \<open>
  \<open>mvccpb.KeyValue\<close>, \<open>mvccpb.Event\<close> (its field \<open>Type\<close> is written \<open>Type_ev\<close>) and the
  responses of clientv3. \<open>Kv\<close> is never nil in a delivered event; \<open>PrevKv\<close> is a pointer
  that is nil unless the watch asked for previous values and one exists.
\<close>

record KeyValue =
  Key :: string
  Value :: string

datatype EventType = mvccpb_PUT | mvccpb_DELETE

record WatchEvent =
  Type_ev :: EventType
  Kv :: KeyValue
  PrevKv :: "KeyValue option"

record WatchResponse =
  Events :: "WatchEvent list"

record ResponseHeader =
  Revision :: int64

record RangeResponse =
  Header :: ResponseHeader
  Kvs :: "KeyValue list"

record LeaseGrantResponse =
  ID :: int64

text \<open>\<open>config.Conf.Etcd\<close>: the two namespaces the code reads.\<close>

record Etcd =
  Etcd_Pipeline :: string
  Etcd_Killer :: string

subsection \<open>Effects\<close>

datatype OpOption = WithPrefix | WithRev int64 | WithPrevKV | WithLease int64

datatype StoreCall =
    CallGet string "OpOption list"
  | CallWatch string "OpOption list"
  | CallGrant int64
  | CallPut string string "OpOption list"

text \<open>
  A log line: \<open>log.Println(err)\<close>, and the two \<open>log.Printf\<close> lines of \<open>WatchKiller\<close>
  (the registration line of its PUT branch and the offline line of its DELETE branch),
  each with the identifier it prints.
\<close>

datatype LogLine = LogErr string | LogRegistered string | LogOffline string

record World =
  queue :: "Event list"
  logs :: "LogLine list"
  calls :: "StoreCall list"
  slept :: nat

definition PushEvent :: "Event \<Rightarrow> World \<Rightarrow> World" where
  "PushEvent e w = w\<lparr>queue := queue w @ [e]\<rparr>"

definition log_line :: "LogLine \<Rightarrow> World \<Rightarrow> World" where
  "log_line l w = w\<lparr>logs := logs w @ [l]\<rparr>"

text \<open>\<open>if err != nil { log.Println(err) }\<close>\<close>

definition log_if_err :: "string option \<Rightarrow> World \<Rightarrow> World" where
  "log_if_err err w = (case err of None \<Rightarrow> w | Some e \<Rightarrow> log_line (LogErr e) w)"

definition store_call :: "StoreCall \<Rightarrow> World \<Rightarrow> World" where
  "store_call c w = w\<lparr>calls := calls w @ [c]\<rparr>"

definition Sleep :: "nat \<Rightarrow> World \<Rightarrow> World" where
  "Sleep n w = w\<lparr>slept := slept w + n\<rparr>"

text \<open>
  A panic ends the process: \<open>panic(err)\<close>, or the dereference of a nil pointer. The
  world at the panic is kept beside it.
\<close>

datatype Failure = PanicErr string | NilDereference

type_synonym 'a Result = "(Failure \<times> World) + 'a"

text \<open>
  \<open>json.Unmarshal(bytes, &pipeline)\<close> on a freshly declared \<open>pipeline\<close>: the error, if
  any, and the struct as the call leaves it (a failed call may leave it zero or partly
  filled).
\<close>

type_synonym Unmarshal = "string \<Rightarrow> string option \<times> Pipeline"

section \<open>WatchPipelines\<close>

text \<open>The body of the loop over \<open>rangeResp.Kvs\<close>.\<close>

definition snapshot_entry :: "Unmarshal \<Rightarrow> KeyValue \<Rightarrow> World \<Rightarrow> World" where
  "snapshot_entry unmarshal obj w =
     (case unmarshal (Value obj) of (err, pipeline) \<Rightarrow>
        PushEvent \<lparr>Type = PUT, Pipeline = pipeline\<rparr> (log_if_err err w))"

fun snapshot_loop :: "Unmarshal \<Rightarrow> KeyValue list \<Rightarrow> World \<Rightarrow> World" where
  "snapshot_loop unmarshal [] w = w"
| "snapshot_loop unmarshal (obj # kvs) w =
     snapshot_loop unmarshal kvs (snapshot_entry unmarshal obj w)"

text \<open>The loop over \<open>pipeline.Nodes\<close> of the PUT branch.\<close>

fun push_matching :: "string \<Rightarrow> Pipeline \<Rightarrow> string list \<Rightarrow> World \<Rightarrow> World" where
  "push_matching local pipeline [] w = w"
| "push_matching local pipeline (node # nodes) w =
     push_matching local pipeline nodes
       (if node = local then PushEvent \<lparr>Type = PUT, Pipeline = pipeline\<rparr> w else w)"

text \<open>The body of the loop over \<open>watchResp.Events\<close>: the switch on \<open>event.Type\<close>.\<close>

definition watch_event :: "Unmarshal \<Rightarrow> string \<Rightarrow> WatchEvent \<Rightarrow> World \<Rightarrow> World Result" where
  "watch_event unmarshal local event w =
     (case Type_ev event of
        mvccpb_PUT \<Rightarrow>
          (case unmarshal (Value (Kv event)) of (err, pipeline) \<Rightarrow>
             Inr (push_matching local pipeline (Nodes pipeline) (log_if_err err w)))
      | mvccpb_DELETE \<Rightarrow>
          (case PrevKv event of
             None \<Rightarrow> Inl (NilDereference, w)
           | Some prev \<Rightarrow>
               (case unmarshal (Value prev) of (err, pipeline) \<Rightarrow>
                  Inr (PushEvent \<lparr>Type = DEL, Pipeline = pipeline\<rparr> (log_if_err err w)))))"

fun watch_events :: "Unmarshal \<Rightarrow> string \<Rightarrow> WatchEvent list \<Rightarrow> World \<Rightarrow> World Result" where
  "watch_events unmarshal local [] w = Inr w"
| "watch_events unmarshal local (event # events) w =
     (case watch_event unmarshal local event w of
        Inl f \<Rightarrow> Inl f
      | Inr w' \<Rightarrow> watch_events unmarshal local events w')"

text \<open>
  The loop over the watch channel. The list holds the responses the channel delivers
  before it is closed; after each one the loop sleeps a second.
\<close>

fun watch_loop :: "Unmarshal \<Rightarrow> string \<Rightarrow> WatchResponse list \<Rightarrow> World \<Rightarrow> World Result" where
  "watch_loop unmarshal local [] w = Inr w"
| "watch_loop unmarshal local (watchResp # watchChan) w =
     (case watch_events unmarshal local (Events watchResp) w of
        Inl f \<Rightarrow> Inl f
      | Inr w' \<Rightarrow> watch_loop unmarshal local watchChan (Sleep 1 w'))"

text \<open>
  \<open>getResp\<close> is what \<open>discover.Client.Get\<close> returns (\<open>Inl\<close> its error), \<open>watchChan\<close> what
  the channel of \<open>discover.Client.Watch\<close> delivers.
\<close>

definition WatchPipelines ::
  "Etcd \<Rightarrow> Unmarshal \<Rightarrow> string \<Rightarrow> string + RangeResponse \<Rightarrow> WatchResponse list \<Rightarrow> World
     \<Rightarrow> World Result" where
  "WatchPipelines conf unmarshal local getResp watchChan w =
     (let w0 = store_call (CallGet (Etcd_Pipeline conf) [WithPrefix]) w in
      case getResp of
        Inl err \<Rightarrow> Inl (PanicErr err, w0)
      | Inr rangeResp \<Rightarrow>
          (let curRevision = Revision (Header rangeResp) + 1;
               w1 = snapshot_loop unmarshal (Kvs rangeResp) w0;
               w2 = store_call
                      (CallWatch (Etcd_Pipeline conf) [WithPrefix, WithRev curRevision, WithPrevKV])
                      w1
           in watch_loop unmarshal local watchChan w2))"

section \<open>WatchKiller\<close>

text \<open>
  The retry loop: \<open>getResps n\<close> is what the n-th call of \<open>discover.Client.Get\<close> returns.
  The loop may run forever; not returning is \<open>None\<close>.
\<close>

partial_function (option) killer_bootstrap ::
  "(nat \<Rightarrow> string + RangeResponse) \<Rightarrow> string \<Rightarrow> nat \<Rightarrow> World \<Rightarrow> (int64 \<times> World) option" where
  "killer_bootstrap getResps prefix n w =
     (case getResps n of
        Inl err \<Rightarrow> killer_bootstrap getResps prefix (Suc n) (store_call (CallGet prefix [WithPrefix]) w)
      | Inr rangeResp \<Rightarrow>
          Some (Revision (Header rangeResp) + 1, store_call (CallGet prefix [WithPrefix]) w))"

text \<open>The body of the loop over \<open>watchResp.Events\<close>.\<close>

definition killer_event :: "Unmarshal \<Rightarrow> WatchEvent \<Rightarrow> World \<Rightarrow> World" where
  "killer_event unmarshal event w =
     (case unmarshal (Value (Kv event)) of (err, pipeline) \<Rightarrow>
        (case Type_ev event of
           mvccpb_PUT \<Rightarrow> log_line (LogRegistered (Id' pipeline)) (log_if_err err w)
         | mvccpb_DELETE \<Rightarrow> log_line (LogOffline (Id' pipeline)) (log_if_err err w)))"

fun killer_events :: "Unmarshal \<Rightarrow> WatchEvent list \<Rightarrow> World \<Rightarrow> World" where
  "killer_events unmarshal [] w = w"
| "killer_events unmarshal (event # events) w =
     killer_events unmarshal events (killer_event unmarshal event w)"

fun killer_loop :: "Unmarshal \<Rightarrow> WatchResponse list \<Rightarrow> World \<Rightarrow> World" where
  "killer_loop unmarshal [] w = w"
| "killer_loop unmarshal (watchResp # watchChan) w =
     killer_loop unmarshal watchChan (killer_events unmarshal (Events watchResp) w)"

definition WatchKiller ::
  "Etcd \<Rightarrow> Unmarshal \<Rightarrow> (nat \<Rightarrow> string + RangeResponse) \<Rightarrow> WatchResponse list \<Rightarrow> World
     \<Rightarrow> World option" where
  "WatchKiller conf unmarshal getResps watchChan w =
     (case killer_bootstrap getResps (Etcd_Pipeline conf) 0 w of
        None \<Rightarrow> None
      | Some (curRevision, w1) \<Rightarrow>
          Some (killer_loop unmarshal watchChan
                  (store_call (CallWatch [] [WithPrefix, WithRev curRevision]) w1)))"

section \<open>PostKiller\<close>

record KillPipelineRequest =
  PipelineId :: string

text \<open>
  The responses of package \<open>response\<close>, as the handler builds them; the payload of
  \<open>PostKiller\<close>'s success is the empty map under \<open>data\<close>.
\<close>

datatype Response =
    Success string
  | InternalServerError string string
  | ValidationError string

text \<open>
  \<open>readJSON\<close> is what \<open>ctx.ReadJSON(&params)\<close> gives (\<open>Inl\<close> its error), \<open>validate_Struct\<close>
  and \<open>message_Get\<close> stand for the validator and the message table, \<open>grantResp\<close> and
  \<open>putResp\<close> are what the store answers. clientv3's \<open>Grant\<close> returns a nil response
  beside an error, so that \<open>res.ID\<close> after a failed grant dereferences nil.
\<close>

definition PostKiller ::
  "Etcd \<Rightarrow> (KillPipelineRequest \<Rightarrow> 'v option) \<Rightarrow> (string \<Rightarrow> 'v \<Rightarrow> string)
     \<Rightarrow> string + KillPipelineRequest \<Rightarrow> string + LeaseGrantResponse \<Rightarrow> string option \<Rightarrow> World
     \<Rightarrow> (Response \<times> World) Result" where
  "PostKiller conf validate_Struct message_Get readJSON grantResp putResp w =
     (case readJSON of
        Inl err \<Rightarrow> Inr (InternalServerError ''Failed to Unmarshal JSON'' err, w)
      | Inr params \<Rightarrow>
          (case validate_Struct params of
             Some validationErrors \<Rightarrow>
               Inr (ValidationError (message_Get ''pipeline'' validationErrors), w)
           | None \<Rightarrow>
               (let w1 = store_call (CallGrant 2) w;
                    key = Etcd_Killer conf @ ''/'' @ PipelineId params
                in case grantResp of
                     Inl err \<Rightarrow> Inl (NilDereference, log_line (LogErr err) w1)
                   | Inr res \<Rightarrow>
                       Inr (Success [],
                            log_if_err putResp
                              (store_call (CallPut key ''pipeline'' [WithLease (ID res)]) w1)))))"

section \<open>Reading a result, and the registry of the spec\<close>

text \<open>The world a run of \<open>WatchPipelines\<close> leaves, whether it panicked or returned.\<close>

definition world_of :: "World Result \<Rightarrow> World" where
  "world_of r = (case r of Inl (f, w) \<Rightarrow> w | Inr w \<Rightarrow> w)"



section \<open>Sample inputs\<close>

text \<open>
  Concrete inputs for the examples below. \<open>sample_unmarshal\<close> is a table of what
  \<open>json.Unmarshal\<close> gives on the few values the examples use: the empty value (the value a
  delete event carries) does not parse and leaves the struct zero, \<open>{}\<close> parses to the zero
  struct, and three objects parse to pipelines (their keys written \<open>id\<close> and \<open>nodes\<close>).
  It says nothing about other values.
\<close>

definition zero_Pipeline :: Pipeline where
  "zero_Pipeline = \<lparr>Id' = [], Nodes = []\<rparr>"

definition sample_unmarshal :: Unmarshal where
  \<open>sample_unmarshal bytes =
     (if bytes = ''{"id":"A","nodes":["n1"]}'' then (None, \<lparr>Id' = ''A'', Nodes = [''n1'']\<rparr>)
      else if bytes = ''{"id":"B","nodes":["n2"]}'' then (None, \<lparr>Id' = ''B'', Nodes = [''n2'']\<rparr>)
      else if bytes = ''{"id":"C","nodes":["n1","n2","n1"]}''
        then (None, \<lparr>Id' = ''C'', Nodes = [''n1'', ''n2'', ''n1'']\<rparr>)
      else if bytes = ''{}'' then (None, zero_Pipeline)
      else (Some ''unexpected end of JSON input'', zero_Pipeline))\<close>

definition empty_World :: World where
  "empty_World = \<lparr>queue = [], logs = [], calls = [], slept = 0\<rparr>"

definition sample_conf :: Etcd where
  "sample_conf = \<lparr>Etcd_Pipeline = ''/ects/pipelines'', Etcd_Killer = ''/ects/killer''\<rparr>"

definition kv_A :: KeyValue where
  \<open>kv_A = \<lparr>Key = ''/ects/pipelines/A'', Value = ''{"id":"A","nodes":["n1"]}''\<rparr>\<close>

definition kv_B :: KeyValue where
  \<open>kv_B = \<lparr>Key = ''/ects/pipelines/B'', Value = ''{"id":"B","nodes":["n2"]}''\<rparr>\<close>

definition kv_C :: KeyValue where
  \<open>kv_C = \<lparr>Key = ''/ects/pipelines/C'', Value = ''{"id":"C","nodes":["n1","n2","n1"]}''\<rparr>\<close>

definition kv_bad :: KeyValue where
  "kv_bad = \<lparr>Key = ''/ects/pipelines/X'', Value = []\<rparr>"

text \<open>
  A put event of a key-value pair, and the delete event of a pair: its \<open>Kv\<close> holds the
  key with an empty value, its \<open>PrevKv\<close> the pair deleted.
\<close>

definition put_of :: "KeyValue \<Rightarrow> WatchEvent" where
  "put_of kv = \<lparr>Type_ev = mvccpb_PUT, Kv = kv, PrevKv = None\<rparr>"

definition delete_of :: "KeyValue \<Rightarrow> WatchEvent" where
  "delete_of prev =
     \<lparr>Type_ev = mvccpb_DELETE, Kv = \<lparr>Key = Key prev, Value = []\<rparr>, PrevKv = Some prev\<rparr>"


definition sample_rangeResp :: RangeResponse where
  "sample_rangeResp = \<lparr>Header = \<lparr>Revision = 41\<rparr>, Kvs = [kv_A, kv_B]\<rparr>"

text \<open>A store whose first two reads fail, and one whose every read fails.\<close>

definition sample_getResps :: "nat \<Rightarrow> string + RangeResponse" where
  "sample_getResps n =
     (if n < 2 then Inl ''context deadline exceeded'' else Inr sample_rangeResp)"

definition failing_getResps :: "nat \<Rightarrow> string + RangeResponse" where
  "failing_getResps n = Inl ''context deadline exceeded''"

text \<open>A kill request with a well-formed identifier, which the validator accepts.\<close>

definition sample_request :: KillPipelineRequest where
  "sample_request = \<lparr>PipelineId = ''6ba7b810-9dad-41d1-80b4-00c04fd430c8''\<rparr>"

definition sample_validate :: "KillPipelineRequest \<Rightarrow> string list option" where
  "sample_validate params =
     (if PipelineId params = ''6ba7b810-9dad-41d1-80b4-00c04fd430c8'' then None
      else Some [''PipelineId''])"

definition sample_message_Get :: "string \<Rightarrow> string list \<Rightarrow> string" where
  "sample_message_Get name validationErrors = concat validationErrors"

section \<open>Helper lemmas\<close>

lemmas sample_defs =
  empty_World_def sample_conf_def kv_A_def kv_B_def kv_C_def kv_bad_def put_of_def delete_of_def
  sample_rangeResp_def sample_unmarshal_def zero_Pipeline_def

subsection \<open>A channel that stays open\<close>

text \<open>
  The loops over a watch channel are read off any prefix of what the channel delivers:
  the world after the responses delivered so far does not depend on the later ones, and
  the later ones are processed from it.
\<close>

lemma watch_loop_append:
  "watch_loop unmarshal local (delivered @ later) w =
     (case watch_loop unmarshal local delivered w of
        Inl f \<Rightarrow> Inl f
      | Inr w' \<Rightarrow> watch_loop unmarshal local later w')"
  by (induction delivered arbitrary: w) (simp_all split: sum.split)

lemma killer_loop_append:
  "killer_loop unmarshal (delivered @ later) w =
     killer_loop unmarshal later (killer_loop unmarshal delivered w)"
  by (induction delivered arbitrary: w) simp_all

subsection \<open>The scheduler queue\<close>

lemma queue_log_if_err [simp]: "queue (log_if_err err w) = queue w"
  by (simp add: log_if_err_def log_line_def split: option.split)

lemma queue_PushEvent [simp]: "queue (PushEvent e w) = queue w @ [e]"
  by (simp add: PushEvent_def)

lemma queue_store_call [simp]: "queue (store_call c w) = queue w"
  by (simp add: store_call_def)

lemma queue_snapshot_entry:
  "queue (snapshot_entry unmarshal obj w) =
     queue w @ [\<lparr>Type = PUT, Pipeline = snd (unmarshal (Value obj))\<rparr>]"
  by (simp add: snapshot_entry_def split: prod.split)

lemma queue_snapshot_loop:
  "queue (snapshot_loop unmarshal kvs w) =
     queue w @ map (\<lambda>obj. \<lparr>Type = PUT, Pipeline = snd (unmarshal (Value obj))\<rparr>) kvs"
  by (induction kvs arbitrary: w) (simp_all add: queue_snapshot_entry)

lemma queue_push_matching:
  "queue (push_matching local pipeline nodes w) =
     queue w @ replicate (count_list nodes local) \<lparr>Type = PUT, Pipeline = pipeline\<rparr>"
  by (induction nodes arbitrary: w) (simp_all add: replicate_append_same)

lemma push_matching_no_match:
  "local \<notin> set nodes \<Longrightarrow> push_matching local pipeline nodes w = w"
  by (induction nodes arbitrary: w) auto

subsection \<open>The calls on the store\<close>

lemma calls_log_if_err [simp]: "calls (log_if_err err w) = calls w"
  by (simp add: log_if_err_def log_line_def split: option.split)

lemma calls_PushEvent [simp]: "calls (PushEvent e w) = calls w"
  by (simp add: PushEvent_def)

lemma calls_Sleep [simp]: "calls (Sleep n w) = calls w"
  by (simp add: Sleep_def)

lemma calls_store_call [simp]: "calls (store_call c w) = calls w @ [c]"
  by (simp add: store_call_def)

lemma calls_snapshot_loop [simp]: "calls (snapshot_loop unmarshal kvs w) = calls w"
  by (induction kvs arbitrary: w) (simp_all add: snapshot_entry_def split: prod.split)

lemma calls_push_matching [simp]: "calls (push_matching local pipeline nodes w) = calls w"
  by (induction nodes arbitrary: w) simp_all

lemma calls_watch_event [simp]: "calls (world_of (watch_event unmarshal local event w)) = calls w"
  by (simp add: watch_event_def world_of_def split: EventType.split prod.split option.split)

lemma calls_watch_events [simp]:
  "calls (world_of (watch_events unmarshal local events w)) = calls w"
proof (induction events arbitrary: w)
  case Nil
  show ?case by (simp add: world_of_def)
next
  case (Cons event events)
  show ?case
  proof (cases "watch_event unmarshal local event w")
    case (Inl f)
    with calls_watch_event [of unmarshal local event w] show ?thesis by simp
  next
    case (Inr w')
    with calls_watch_event [of unmarshal local event w] Cons.IH [of w'] show ?thesis
      by (simp add: world_of_def)
  qed
qed

lemma calls_watch_loop [simp]:
  "calls (world_of (watch_loop unmarshal local watchChan w)) = calls w"
proof (induction watchChan arbitrary: w)
  case Nil
  show ?case by (simp add: world_of_def)
next
  case (Cons watchResp watchChan)
  show ?case
  proof (cases "watch_events unmarshal local (Events watchResp) w")
    case (Inl f)
    with calls_watch_events [of unmarshal local "Events watchResp" w] show ?thesis by simp
  next
    case (Inr w')
    with calls_watch_events [of unmarshal local "Events watchResp" w] Cons.IH [of "Sleep 1 w'"]
    show ?thesis by (simp add: world_of_def)
  qed
qed

subsection \<open>The next revision as a signed number\<close>

lemma sint_succ:
  assumes "sint (r :: int64) < 2 ^ 63 - 1"
  shows "sint (r + 1) = sint r + 1"
proof -
  have lo: "- (2 ^ 63) \<le> sint r" using sint_ge [of r] by simp
  have "sint (r + 1) = signed_take_bit 63 (sint r + 1)"
    by (simp add: sint_word_ariths)
  also have "\<dots> = sint r + 1"
    using assms lo by (intro signed_take_bit_int_eq_self) simp_all
  finally show ?thesis .
qed

subsection \<open>The retry loop of WatchKiller\<close>

text \<open>
  When the reads \<open>n, \<dots>, n + k - 1\<close> fail and read \<open>n + k\<close> succeeds, the loop returns
  after \<open>k + 1\<close> reads with the revision after that of the successful one.
\<close>

lemma killer_bootstrap_first_success:
  "(\<forall>i<k. isl (getResps (n + i))) \<Longrightarrow> getResps (n + k) = Inr rangeResp \<Longrightarrow>
   killer_bootstrap getResps prefix n w =
     Some (Revision (Header rangeResp) + 1,
           w\<lparr>calls := calls w @ replicate (Suc k) (CallGet prefix [WithPrefix])\<rparr>)"
proof (induction k arbitrary: n w)
  case 0
  then show ?case
    by (subst killer_bootstrap.simps) (simp add: store_call_def)
next
  case (Suc k)
  from Suc.prems(1) have "isl (getResps (n + 0))" by blast
  then obtain err where err: "getResps n = Inl err" by (cases "getResps n") simp_all
  have step: "\<forall>i<k. isl (getResps (Suc n + i))"
    using Suc.prems(1) by (metis Suc_less_eq add_Suc_shift)
  have last: "getResps (Suc n + k) = Inr rangeResp"
    using Suc.prems(2) by simp
  show ?case
    by (subst killer_bootstrap.simps)
       (simp add: err Suc.IH [OF step last] store_call_def replicate_append_same)
qed

text \<open>The loop returns only when some read succeeds.\<close>

lemma killer_bootstrap_returns:
  assumes "killer_bootstrap getResps prefix n w = Some y"
  shows "\<exists>k\<ge>n. \<not> isl (getResps k)"
  using assms
proof (induct rule: killer_bootstrap.raw_induct [rotated 1, consumes 1, case_names 1])
  case (1 rec g p m v r)
  show ?case
  proof (cases "g m")
    case (Inl err)
    let ?v = "store_call (CallGet p [WithPrefix]) v"
    from "1"(2) Inl have a: "rec g p (Suc m) ?v = Some r" by simp
    from "1"(1) [OF a] obtain k where "Suc m \<le> k" "\<not> isl (g k)" by blast
    then have "m \<le> k \<and> \<not> isl (g k)" by simp
    then show ?thesis by blast
  next
    case (Inr rangeResp)
    then have "m \<le> m \<and> \<not> isl (g m)" by simp
    then show ?thesis by blast
  qed
qed

lemma killer_bootstrap_never:
  "(\<forall>i. isl (getResps i)) \<Longrightarrow> killer_bootstrap getResps prefix n w = None"
  using killer_bootstrap_returns [of getResps prefix n w]
  by (cases "killer_bootstrap getResps prefix n w") auto

subsection \<open>What the loop of WatchKiller leaves untouched\<close>

lemma killer_event_fields:
  "queue (killer_event unmarshal event w) = queue w
   \<and> calls (killer_event unmarshal event w) = calls w
   \<and> slept (killer_event unmarshal event w) = slept w"
  by (simp add: killer_event_def log_line_def log_if_err_def
        split: prod.split EventType.split option.split)

lemma killer_events_fields:
  "queue (killer_events unmarshal events w) = queue w
   \<and> calls (killer_events unmarshal events w) = calls w
   \<and> slept (killer_events unmarshal events w) = slept w"
  by (induction events arbitrary: w) (simp_all add: killer_event_fields)

lemma killer_loop_fields:
  "queue (killer_loop unmarshal watchChan w) = queue w
   \<and> calls (killer_loop unmarshal watchChan w) = calls w
   \<and> slept (killer_loop unmarshal watchChan w) = slept w"
  by (induction watchChan arbitrary: w) (simp_all add: killer_events_fields)


subsection \<open>PostKiller once the lease is granted\<close>

lemma PostKiller_granted:
  "validate_Struct params = None \<Longrightarrow>
   PostKiller conf validate_Struct message_Get (Inr params) (Inr res) putResp w =
     Inr (Success [],
          log_if_err putResp
            (store_call (CallPut (Etcd_Killer conf @ ''/'' @ PipelineId params) ''pipeline''
                           [WithLease (ID res)])
               (store_call (CallGrant 2) w)))"
  by (simp add: PostKiller_def Let_def)

section \<open>The claims\<close>

text \<open>
  C1. Snapshot phase of \<open>WatchPipelines\<close>: for every key the prefix read returns, exactly
  one PUT event is pushed to the scheduler queue, in the order of the keys, whatever the
  pipeline's \<open>Nodes\<close> holds, the empty list included: the snapshot loop never looks at
  \<open>Nodes\<close> or at the local node name. The queue after the loop is the queue before it
  followed by one PUT event per key; with a watch channel that delivers nothing this is
  the queue \<open>WatchPipelines\<close> leaves.
\<close>

theorem C1_snapshot_one_put_per_key:
  "queue (snapshot_loop unmarshal kvs w) =
     queue w @ map (\<lambda>obj. \<lparr>Type = PUT, Pipeline = snd (unmarshal (Value obj))\<rparr>) kvs
   \<and> length (queue (snapshot_loop unmarshal kvs w)) = length (queue w) + length kvs
   \<and> (\<exists>w'. WatchPipelines conf unmarshal local (Inr rangeResp) [] w = Inr w'
        \<and> queue w' = queue w @
            map (\<lambda>obj. \<lparr>Type = PUT, Pipeline = snd (unmarshal (Value obj))\<rparr>) (Kvs rangeResp))"
  by (simp add: queue_snapshot_loop WatchPipelines_def Let_def)

text \<open>
  C2. Streaming phase of \<open>WatchPipelines\<close>: a put event whose decoded pipeline does not
  list the local node in \<open>Nodes\<close> pushes no event; a delete event that carries its
  previous value (the watch asks for it) pushes exactly one DELETE event, built from the
  pipeline decoded from the previous value, with no test of \<open>Nodes\<close>.
\<close>

theorem C2_put_filtered_delete_unfiltered:
  "(Type_ev event = mvccpb_PUT \<and> unmarshal (Value (Kv event)) = (err, pipeline)
      \<and> local \<notin> set (Nodes pipeline) \<longrightarrow>
      (\<exists>w'. watch_event unmarshal local event w = Inr w' \<and> queue w' = queue w))
   \<and> (Type_ev event = mvccpb_DELETE \<and> PrevKv event = Some prev
      \<and> unmarshal (Value prev) = (err, pipeline) \<longrightarrow>
      (\<exists>w'. watch_event unmarshal local event w = Inr w'
         \<and> queue w' = queue w @ [\<lparr>Type = DEL, Pipeline = pipeline\<rparr>]))"
  by (simp add: watch_event_def push_matching_no_match)

text \<open>
  On node \<open>n1\<close>: a put of pipeline B, bound to \<open>n2\<close> only, pushes nothing; the delete of B
  pushes one DELETE event for B.
\<close>

theorem C2_witness:
  "(\<exists>w'. watch_event sample_unmarshal ''n1'' (put_of kv_B) empty_World = Inr w'
      \<and> queue w' = queue empty_World)
   \<and> (\<exists>w'. watch_event sample_unmarshal ''n1'' (delete_of kv_B) empty_World = Inr w'
      \<and> queue w' =
          queue empty_World @ [\<lparr>Type = DEL, Pipeline = \<lparr>Id' = ''B'', Nodes = [''n2'']\<rparr>\<rparr>])"
  using C2_put_filtered_delete_unfiltered
          [of "put_of kv_B" sample_unmarshal None "\<lparr>Id' = ''B'', Nodes = [''n2'']\<rparr>" "''n1''"
              empty_World kv_B]
        C2_put_filtered_delete_unfiltered
          [of "delete_of kv_B" sample_unmarshal None "\<lparr>Id' = ''B'', Nodes = [''n2'']\<rparr>" "''n1''"
              empty_World kv_B]
  by (simp add: sample_defs)

text \<open>
  C3. \<open>WatchPipelines\<close> makes exactly two calls on the store when the snapshot read
  succeeds, however the run ends: the prefix read of the pipeline namespace, and a watch
  on the same prefix that starts at \<open>R + 1\<close>, \<open>R\<close> the revision of the read's response
  header, and asks for the previous value of each change. \<open>R + 1\<close> is an \<open>int64\<close> sum;
  below the largest \<open>int64\<close> it is the successor of \<open>R\<close> as a number.
\<close>

theorem C3_watch_from_next_revision:
  "calls (world_of (WatchPipelines conf unmarshal local (Inr rangeResp) watchChan w)) =
     calls w @ [CallGet (Etcd_Pipeline conf) [WithPrefix],
                CallWatch (Etcd_Pipeline conf)
                  [WithPrefix, WithRev (Revision (Header rangeResp) + 1), WithPrevKV]]
   \<and> (sint (Revision (Header rangeResp)) < 2 ^ 63 - 1 \<longrightarrow>
        sint (Revision (Header rangeResp) + 1) = sint (Revision (Header rangeResp)) + 1)"
  by (simp add: WatchPipelines_def Let_def sint_succ)

text \<open>A snapshot read at revision 41 is followed by a watch from revision 42.\<close>

theorem C3_witness:
  "calls (world_of (WatchPipelines sample_conf sample_unmarshal ''n1'' (Inr sample_rangeResp)
                      [] empty_World)) =
     [CallGet ''/ects/pipelines'' [WithPrefix],
      CallWatch ''/ects/pipelines'' [WithPrefix, WithRev 42, WithPrevKV]]
   \<and> sint (Revision (Header sample_rangeResp)) < 2 ^ 63 - 1
   \<and> sint (Revision (Header sample_rangeResp) + 1) = 42"
  using C3_watch_from_next_revision
          [of sample_conf sample_unmarshal "''n1''" sample_rangeResp "[]" empty_World]
  by (simp add: sample_conf_def sample_rangeResp_def empty_World_def)

text \<open>
  C4 as the spec states it (a value that fails to deserialize is skipped, no event is
  pushed for it) fails: a snapshot entry with the empty value does not parse, and the
  snapshot loop logs the error and pushes a PUT event for the zero pipeline; a delete
  event whose previous value is empty logs the error and pushes a DELETE event for the
  zero pipeline.
\<close>

theorem C4_counterexample:
  "fst (sample_unmarshal (Value kv_bad)) = Some ''unexpected end of JSON input''
   \<and> snapshot_loop sample_unmarshal [kv_bad] empty_World =
       empty_World\<lparr>queue := [\<lparr>Type = PUT, Pipeline = \<lparr>Id' = [], Nodes = []\<rparr>\<rparr>],
                    logs := [LogErr ''unexpected end of JSON input'']\<rparr>
   \<and> watch_events sample_unmarshal ''n1'' [delete_of kv_bad] empty_World =
       Inr (empty_World\<lparr>queue := [\<lparr>Type = DEL, Pipeline = \<lparr>Id' = [], Nodes = []\<rparr>\<rparr>],
                         logs := [LogErr ''unexpected end of JSON input'']\<rparr>)"
  by (simp add: sample_defs snapshot_entry_def watch_event_def log_if_err_def log_line_def
        PushEvent_def PUT_def DEL_def)

text \<open>
  C4, amended. When a value read from the store fails to deserialize as a Pipeline, the
  failure is logged and the entry is processed all the same, with the struct as the
  decoder left it: the snapshot loop pushes its PUT event, a put-type change pushes one
  PUT event per occurrence of the local node in the decoded \<open>Nodes\<close>, a delete-type
  change (carrying its previous value) pushes its DELETE event. The failure is never
  fatal: the loop goes on with the entries that follow.
\<close>

theorem C4_decode_failure_logged_entry_kept:
  "unmarshal v = (Some e, pipeline) \<Longrightarrow>
   (Value obj = v \<longrightarrow>
      snapshot_loop unmarshal (obj # kvs) w =
        snapshot_loop unmarshal kvs
          (PushEvent \<lparr>Type = PUT, Pipeline = pipeline\<rparr> (log_line (LogErr e) w)))
   \<and> (Type_ev event = mvccpb_PUT \<and> Value (Kv event) = v \<longrightarrow>
      watch_events unmarshal local (event # events) w =
        watch_events unmarshal local events
          (push_matching local pipeline (Nodes pipeline) (log_line (LogErr e) w)))
   \<and> (Type_ev event = mvccpb_DELETE \<and> PrevKv event = Some prev \<and> Value prev = v \<longrightarrow>
      watch_events unmarshal local (event # events) w =
        watch_events unmarshal local events
          (PushEvent \<lparr>Type = DEL, Pipeline = pipeline\<rparr> (log_line (LogErr e) w)))"
  by (simp add: snapshot_entry_def watch_event_def log_if_err_def)

text \<open>
  An entry with the empty value, followed by pipeline A: in the snapshot loop, as a put
  event and as the previous value of a delete event.
\<close>

theorem C4_witness:
  "snapshot_loop sample_unmarshal [kv_bad, kv_A] empty_World =
     snapshot_loop sample_unmarshal [kv_A]
       (PushEvent \<lparr>Type = PUT, Pipeline = zero_Pipeline\<rparr>
          (log_line (LogErr ''unexpected end of JSON input'') empty_World))
   \<and> watch_events sample_unmarshal ''n1'' [put_of kv_bad, put_of kv_A] empty_World =
     watch_events sample_unmarshal ''n1'' [put_of kv_A]
       (push_matching ''n1'' zero_Pipeline (Nodes zero_Pipeline)
          (log_line (LogErr ''unexpected end of JSON input'') empty_World))
   \<and> watch_events sample_unmarshal ''n1'' [delete_of kv_bad, put_of kv_A] empty_World =
     watch_events sample_unmarshal ''n1'' [put_of kv_A]
       (PushEvent \<lparr>Type = DEL, Pipeline = zero_Pipeline\<rparr>
          (log_line (LogErr ''unexpected end of JSON input'') empty_World))"
proof -
  have bad: "sample_unmarshal [] = (Some ''unexpected end of JSON input'', zero_Pipeline)"
    by (simp add: sample_unmarshal_def)
  show ?thesis
    using bad
          C4_decode_failure_logged_entry_kept
            [where unmarshal = sample_unmarshal and v = "[]" and pipeline = zero_Pipeline
               and e = "''unexpected end of JSON input''" and obj = kv_bad and kvs = "[kv_A]"
               and w = empty_World and event = "put_of kv_bad" and local = "''n1''"
               and events = "[put_of kv_A]" and prev = kv_bad]
          C4_decode_failure_logged_entry_kept
            [where unmarshal = sample_unmarshal and v = "[]" and pipeline = zero_Pipeline
               and e = "''unexpected end of JSON input''" and obj = kv_bad and kvs = "[kv_A]"
               and w = empty_World and event = "delete_of kv_bad" and local = "''n1''"
               and events = "[put_of kv_A]" and prev = kv_bad]
    by (simp add: kv_bad_def put_of_def delete_of_def)
qed

text \<open>
  C5. When the snapshot read fails, \<open>WatchPipelines\<close> panics with the error, having
  pushed and logged nothing. \<open>WatchKiller\<close> logs nothing and reads again: when the first
  \<open>k\<close> reads fail and the next succeeds, its retry loop returns after \<open>k + 1\<close> reads with
  the revision after that of the successful read, and \<open>WatchKiller\<close> goes on to its
  watch; when every read fails, \<open>WatchKiller\<close> never returns.
\<close>

theorem C5_fatal_versus_retry:
  "WatchPipelines conf unmarshal local (Inl err) watchChan w =
     Inl (PanicErr err, store_call (CallGet (Etcd_Pipeline conf) [WithPrefix]) w)
   \<and> ((\<forall>i<k. isl (getResps i)) \<and> getResps k = Inr rangeResp \<longrightarrow>
        killer_bootstrap getResps (Etcd_Pipeline conf) 0 w =
          Some (Revision (Header rangeResp) + 1,
                w\<lparr>calls := calls w @ replicate (Suc k) (CallGet (Etcd_Pipeline conf) [WithPrefix])\<rparr>)
        \<and> WatchKiller conf unmarshal getResps watchChan w \<noteq> None)
   \<and> ((\<forall>i. isl (never i)) \<longrightarrow> WatchKiller conf unmarshal never watchChan w = None)"
proof (intro conjI impI)
  show "WatchPipelines conf unmarshal local (Inl err) watchChan w =
     Inl (PanicErr err, store_call (CallGet (Etcd_Pipeline conf) [WithPrefix]) w)"
    by (simp add: WatchPipelines_def)
next
  assume a: "(\<forall>i<k. isl (getResps i)) \<and> getResps k = Inr rangeResp"
  then show b: "killer_bootstrap getResps (Etcd_Pipeline conf) 0 w =
          Some (Revision (Header rangeResp) + 1,
                w\<lparr>calls := calls w @ replicate (Suc k) (CallGet (Etcd_Pipeline conf) [WithPrefix])\<rparr>)"
    using killer_bootstrap_first_success [of k getResps 0 rangeResp "Etcd_Pipeline conf" w]
    by simp
  show "WatchKiller conf unmarshal getResps watchChan w \<noteq> None"
    by (simp add: WatchKiller_def b)
next
  assume "\<forall>i. isl (never i)"
  then show "WatchKiller conf unmarshal never watchChan w = None"
    by (simp add: WatchKiller_def killer_bootstrap_never)
qed

text \<open>
  The same error ends \<open>WatchPipelines\<close>; \<open>WatchKiller\<close> gets past two failed reads with a
  third, and never returns from a store whose reads all fail.
\<close>

theorem C5_witness:
  "WatchPipelines sample_conf sample_unmarshal ''n1'' (Inl ''context deadline exceeded'') []
       empty_World =
     Inl (PanicErr ''context deadline exceeded'',
          empty_World\<lparr>calls := [CallGet ''/ects/pipelines'' [WithPrefix]]\<rparr>)
   \<and> killer_bootstrap sample_getResps ''/ects/pipelines'' 0 empty_World =
       Some (42, empty_World\<lparr>calls := [CallGet ''/ects/pipelines'' [WithPrefix],
                                       CallGet ''/ects/pipelines'' [WithPrefix],
                                       CallGet ''/ects/pipelines'' [WithPrefix]]\<rparr>)
   \<and> WatchKiller sample_conf sample_unmarshal sample_getResps [] empty_World \<noteq> None
   \<and> WatchKiller sample_conf sample_unmarshal failing_getResps [] empty_World = None"
  using C5_fatal_versus_retry
          [of sample_conf sample_unmarshal "''n1''" "''context deadline exceeded''" "[]" empty_World
              2 sample_getResps sample_rangeResp failing_getResps]
  by (simp add: sample_getResps_def failing_getResps_def sample_conf_def sample_rangeResp_def
        empty_World_def store_call_def numeral_3_eq_3)

text \<open>
  C6 as the spec states it (a write the store does not accept is reported to the caller
  as a failure) fails: with the lease granted and the write refused, \<open>PostKiller\<close> logs
  the error and answers \<open>Success\<close>.
\<close>

theorem C6_counterexample:
  "PostKiller sample_conf sample_validate sample_message_Get (Inr sample_request)
       (Inr \<lparr>ID = 7\<rparr>) (Some ''etcdserver: request timed out'') empty_World =
     Inr (Success [],
          empty_World
            \<lparr>logs := [LogErr ''etcdserver: request timed out''],
             calls := [CallGrant 2,
                       CallPut ''/ects/killer/6ba7b810-9dad-41d1-80b4-00c04fd430c8'' ''pipeline''
                         [WithLease 7]]\<rparr>)"
  by (simp add: PostKiller_def sample_conf_def sample_validate_def sample_request_def
        empty_World_def store_call_def log_if_err_def log_line_def)

text \<open>
  C6, amended. For a request that parses and validates, \<open>PostKiller\<close> answers \<open>Success\<close>
  whenever the store has granted the lease, whether or not the store accepts the write:
  a write failure is logged and not reported to the caller.
\<close>

theorem C6_success_once_lease_granted:
  "readJSON = Inr params \<Longrightarrow> validate_Struct params = None \<Longrightarrow> grantResp = Inr res \<Longrightarrow>
   \<exists>w'. PostKiller conf validate_Struct message_Get readJSON grantResp putResp w =
          Inr (Success [], w')
      \<and> logs w' = logs w @ (case putResp of None \<Rightarrow> [] | Some err \<Rightarrow> [LogErr err])"
  by (simp add: PostKiller_granted store_call_def log_if_err_def log_line_def split: option.split)

text \<open>The sample request, its lease granted, its write timed out.\<close>

theorem C6_witness:
  "\<exists>w'. PostKiller sample_conf sample_validate sample_message_Get (Inr sample_request)
            (Inr \<lparr>ID = 7\<rparr>) (Some ''etcdserver: request timed out'') empty_World =
          Inr (Success [], w')
      \<and> logs w' = [LogErr ''etcdserver: request timed out'']"
  using C6_success_once_lease_granted
          [where readJSON = "Inr sample_request" and params = sample_request
             and validate_Struct = sample_validate and grantResp = "Inr \<lparr>ID = 7\<rparr>"
             and res = "\<lparr>ID = 7\<rparr>" and conf = sample_conf and message_Get = sample_message_Get
             and putResp = "Some ''etcdserver: request timed out''" and w = empty_World]
  by (simp add: sample_validate_def sample_request_def empty_World_def)

text \<open>
  C7. For a request that parses and validates, \<open>PostKiller\<close> asks the store for a lease
  with TTL 2 and, the lease granted, writes the key made of the kill namespace, a slash
  and the request's pipeline identifier, with the value \<open>pipeline\<close>, bound to the lease
  granted. These are its only calls on the store.
\<close>

theorem C7_lease_ttl_2_and_marker_key:
  "readJSON = Inr params \<Longrightarrow> validate_Struct params = None \<Longrightarrow> grantResp = Inr res \<Longrightarrow>
   \<exists>r w'. PostKiller conf validate_Struct message_Get readJSON grantResp putResp w = Inr (r, w')
      \<and> calls w' = calls w @
           [CallGrant 2,
            CallPut (Etcd_Killer conf @ ''/'' @ PipelineId params) ''pipeline''
              [WithLease (ID res)]]"
  by (simp add: PostKiller_granted)

text \<open>The sample request, with lease 7 granted.\<close>

theorem C7_witness:
  "\<exists>r w'. PostKiller sample_conf sample_validate sample_message_Get (Inr sample_request)
            (Inr \<lparr>ID = 7\<rparr>) None empty_World = Inr (r, w')
      \<and> calls w' =
           [CallGrant 2,
            CallPut ''/ects/killer/6ba7b810-9dad-41d1-80b4-00c04fd430c8'' ''pipeline''
              [WithLease 7]]"
  using C7_lease_ttl_2_and_marker_key
          [where readJSON = "Inr sample_request" and params = sample_request
             and validate_Struct = sample_validate and grantResp = "Inr \<lparr>ID = 7\<rparr>"
             and res = "\<lparr>ID = 7\<rparr>" and conf = sample_conf and message_Get = sample_message_Get
             and putResp = None and w = empty_World]
  by (simp add: sample_validate_def sample_request_def empty_World_def sample_conf_def)




text \<open>
  C9 as the spec states it (the snapshot read is over the full keyspace) fails: with
  the pipeline namespace \<open>/ects/pipelines\<close>, every snapshot read of \<open>WatchKiller\<close> is a
  prefix read of \<open>/ects/pipelines\<close>; only the watch is on the empty key.
\<close>

theorem C9_counterexample:
  "map_option calls
     (WatchKiller sample_conf sample_unmarshal sample_getResps [] empty_World) =
     Some [CallGet ''/ects/pipelines'' [WithPrefix],
           CallGet ''/ects/pipelines'' [WithPrefix],
           CallGet ''/ects/pipelines'' [WithPrefix],
           CallWatch [] [WithPrefix, WithRev 42]]"
proof -
  have "killer_bootstrap sample_getResps ''/ects/pipelines'' 0 empty_World =
          Some (Revision (Header sample_rangeResp) + 1,
                empty_World\<lparr>calls := calls empty_World @
                  replicate (Suc 2) (CallGet ''/ects/pipelines'' [WithPrefix])\<rparr>)"
    by (rule killer_bootstrap_first_success) (simp_all add: sample_getResps_def)
  then show ?thesis
    by (simp add: WatchKiller_def sample_conf_def sample_rangeResp_def empty_World_def
          store_call_def numeral_2_eq_2)
qed

text \<open>
  C9, amended. The retry loop of \<open>WatchKiller\<close> performs its snapshot read as a prefix
  read of the pipeline namespace; when the first \<open>k\<close> reads fail and the next succeeds
  with revision \<open>R\<close>, \<open>WatchKiller\<close> has made \<open>k + 1\<close> such reads and then opens one watch
  over the entire keyspace (the empty key with the prefix option), starting at \<open>R + 1\<close>.
\<close>

theorem C9_snapshot_on_pipeline_prefix_watch_on_all:
  "(\<forall>i<k. isl (getResps i)) \<Longrightarrow> getResps k = Inr rangeResp \<Longrightarrow>
   \<exists>w'. WatchKiller conf unmarshal getResps watchChan w = Some w'
     \<and> calls w' = calls w @ replicate (Suc k) (CallGet (Etcd_Pipeline conf) [WithPrefix])
                   @ [CallWatch [] [WithPrefix, WithRev (Revision (Header rangeResp) + 1)]]"
  using killer_bootstrap_first_success [of k getResps 0 rangeResp "Etcd_Pipeline conf" w]
  by (simp add: WatchKiller_def killer_loop_fields)

text \<open>Two failed reads, then a read at revision 41.\<close>

theorem C9_witness:
  "\<exists>w'. WatchKiller sample_conf sample_unmarshal sample_getResps [] empty_World = Some w'
     \<and> calls w' = [CallGet ''/ects/pipelines'' [WithPrefix],
                   CallGet ''/ects/pipelines'' [WithPrefix],
                   CallGet ''/ects/pipelines'' [WithPrefix],
                   CallWatch [] [WithPrefix, WithRev 42]]"
  using C9_snapshot_on_pipeline_prefix_watch_on_all
          [where k = 2 and getResps = sample_getResps and rangeResp = sample_rangeResp
             and conf = sample_conf and unmarshal = sample_unmarshal and watchChan = "[]"
             and w = empty_World]
  by (simp add: sample_getResps_def sample_conf_def sample_rangeResp_def empty_World_def
        numeral_2_eq_2)

text \<open>
  C10. Streaming phase of \<open>WatchPipelines\<close>: a put event whose decoded pipeline lists the
  local node \<open>k\<close> times in \<open>Nodes\<close> pushes \<open>k\<close> PUT events, one per occurrence, all for
  that pipeline.
\<close>

theorem C10_one_put_per_occurrence:
  "Type_ev event = mvccpb_PUT \<Longrightarrow> unmarshal (Value (Kv event)) = (err, pipeline) \<Longrightarrow>
   count_list (Nodes pipeline) local = k \<Longrightarrow>
   \<exists>w'. watch_event unmarshal local event w = Inr w'
     \<and> queue w' = queue w @ replicate k \<lparr>Type = PUT, Pipeline = pipeline\<rparr>"
  by (auto simp add: watch_event_def queue_push_matching)

text \<open>Pipeline C lists \<open>n1\<close> twice: its put pushes two PUT events on node \<open>n1\<close>.\<close>

theorem C10_witness:
  "\<exists>w'. watch_event sample_unmarshal ''n1'' (put_of kv_C) empty_World = Inr w'
     \<and> queue w' = [\<lparr>Type = PUT, Pipeline = \<lparr>Id' = ''C'', Nodes = [''n1'', ''n2'', ''n1'']\<rparr>\<rparr>,
                   \<lparr>Type = PUT, Pipeline = \<lparr>Id' = ''C'', Nodes = [''n1'', ''n2'', ''n1'']\<rparr>\<rparr>]"
  using C10_one_put_per_occurrence
          [of "put_of kv_C" sample_unmarshal None "\<lparr>Id' = ''C'', Nodes = [''n1'', ''n2'', ''n1'']\<rparr>"
              "''n1''" 2 empty_World]
  by (simp add: sample_defs numeral_2_eq_2)

end
